theory Spec2Isabelle
  imports Main
begin

section \<open>Errors\<close>

text \<open>
  A Go \<^verbatim>\<open>error\<close> value. \<open>ErrNew msg\<close> is \<^verbatim>\<open>errors.New(msg)\<close>, \<open>ErrWrap cause msg\<close> is
  what \<^verbatim>\<open>errors.Wrap(cause, msg)\<close> returns for a non-nil cause, and \<open>ErrAws code msg\<close>
  is an error of the provider API carrying an error code. The nil error is \<open>None\<close> of
  \<open>error option\<close>.
\<close>

datatype error = ErrNew string | ErrWrap error string | ErrAws string string

text \<open>\<^verbatim>\<open>errors.Wrap\<close>: a nil error stays nil, any other error is annotated with the message.\<close>

fun Wrap :: "error option \<Rightarrow> string \<Rightarrow> error option" where
  "Wrap None msg = None"
| "Wrap (Some err) msg = Some (ErrWrap err msg)"

text \<open>
  \<^verbatim>\<open>resource.Ignore(is, err)\<close>: an error that satisfies the predicate becomes nil, any
  other error (the nil error too) is returned as it is.
\<close>

definition Ignore :: "(error option \<Rightarrow> bool) \<Rightarrow> error option \<Rightarrow> error option" where
  "Ignore is err = (if is err then None else err)"

section \<open>Conditions\<close>

text \<open>
  Modelled from the spec: the condition types, the condition tuple and \<open>SetConditions\<close>
  belong to the runtime library, which is not among the source files. The spec gives
  the condition as a tuple (type, status, reason, message, lastTransitionTime), the
  four recognised types, and the rule of insertion: a new condition of a type already
  present replaces the previous one, and the lastTransitionTime is updated only if the
  status changed; a condition of a new type is added to the list.
\<close>

datatype ConditionType = TypeCreating | TypeAvailable | TypeDeleting | TypeSynced

datatype ConditionStatus = ConditionTrue | ConditionFalse | ConditionUnknown

record Condition =
  Type :: ConditionType
  Status :: ConditionStatus
  Reason :: string
  Message :: string
  LastTransitionTime :: nat

text \<open>
  Modelled from the spec: the three lifecycle conditions the controllers set. Each is
  built at the time of the call (\<open>now\<close> is the clock reading).
\<close>

definition Creating :: "nat \<Rightarrow> Condition" where
  "Creating now = \<lparr>Type = TypeCreating, Status = ConditionTrue, Reason = ''Creating'',
     Message = [], LastTransitionTime = now\<rparr>"

definition Available :: "nat \<Rightarrow> Condition" where
  "Available now = \<lparr>Type = TypeAvailable, Status = ConditionTrue, Reason = ''Available'',
     Message = [], LastTransitionTime = now\<rparr>"

definition Deleting :: "nat \<Rightarrow> Condition" where
  "Deleting now = \<lparr>Type = TypeDeleting, Status = ConditionTrue, Reason = ''Deleting'',
     Message = [], LastTransitionTime = now\<rparr>"

text \<open>
  Modelled from the spec: the condition that takes the slot of \<open>old\<close> when \<open>new\<close>, of the
  same type, is set: it is \<open>new\<close>, with the transition time of \<open>old\<close> kept when the
  status did not change.
\<close>

definition replaceCondition :: "Condition \<Rightarrow> Condition \<Rightarrow> Condition" where
  "replaceCondition old new =
     (if Status old = Status new
      then new\<lparr>LastTransitionTime := LastTransitionTime old\<rparr>
      else new)"

text \<open>
  Modelled from the spec: setting one condition. Every existing condition of the type
  is overwritten in place; when there is none, the new condition is appended.
\<close>

definition SetCondition :: "Condition \<Rightarrow> Condition list \<Rightarrow> Condition list" where
  "SetCondition new cs =
     (if list_ex (\<lambda>c. Type c = Type new) cs
      then map (\<lambda>c. if Type c = Type new then replaceCondition c new else c) cs
      else cs @ [new])"

text \<open>Modelled from the spec: \<open>SetConditions\<close> takes any number of conditions, set in order.\<close>

fun SetConditions :: "Condition list \<Rightarrow> Condition list \<Rightarrow> Condition list" where
  "SetConditions [] cs = cs"
| "SetConditions (new # rest) cs = SetConditions rest (SetCondition new cs)"

text \<open>The conditions of a given type in a list, and whether a type is present.\<close>

definition ofType :: "ConditionType \<Rightarrow> Condition list \<Rightarrow> Condition list" where
  "ofType t cs = filter (\<lambda>c. Type c = t) cs"

definition hasCondition :: "ConditionType \<Rightarrow> Condition list \<Rightarrow> bool" where
  "hasCondition t cs = list_ex (\<lambda>c. Type c = t) cs"

text \<open>The invariant of the data model: at most one condition per type.\<close>

definition onePerType :: "Condition list \<Rightarrow> bool" where
  "onePerType cs = distinct (map Type cs)"

section \<open>Resources\<close>

text \<open>\<^verbatim>\<open>aws.BoolValue\<close> and \<^verbatim>\<open>aws.StringValue\<close>: the value behind a pointer, the zero value for nil.\<close>

definition BoolValue :: "bool option \<Rightarrow> bool" where
  "BoolValue b = (case b of None \<Rightarrow> False | Some v \<Rightarrow> v)"

definition StringValue :: "string option \<Rightarrow> string" where
  "StringValue s = (case s of None \<Rightarrow> [] | Some v \<Rightarrow> v)"

text \<open>
  The ELB attachment resource. Its type is declared outside the source files; the
  fields are the ones the controller reads and writes (\<^verbatim>\<open>Spec.ProviderReference.Name\<close>,
  \<^verbatim>\<open>Spec.ForProvider\<close>, the conditions of \<^verbatim>\<open>Status\<close>) and, from the spec's data model, the
  external identity and the observed state \<^verbatim>\<open>status.atProvider\<close>, whose type \<open>'o\<close> is
  left open.
\<close>

record ELBAttachmentParameters =
  ELBName :: string
  InstanceID :: string

record 'o ELBAttachment =
  ExternalName :: "string option"
  ProviderReference :: string
  ForProvider :: ELBAttachmentParameters
  Conditions :: "Condition list"
  AtProvider :: 'o

text \<open>
  The group-policy attachment resource, with the fields its test suite sets:
  \<^verbatim>\<open>Spec.ForProvider.GroupName\<close> and \<^verbatim>\<open>PolicyARN\<close> (both pointers),
  \<^verbatim>\<open>Status.AtProvider.AttachedPolicyARN\<close> and the conditions.
\<close>

record IAMGroupPolicyAttachmentParameters =
  GroupName :: "string option"
  PolicyARN :: "string option"

record IAMGroupPolicyAttachmentObservation =
  AttachedPolicyARN :: string

record IAMGroupPolicyAttachment =
  GPA_ProviderReference :: string
  GPA_ForProvider :: IAMGroupPolicyAttachmentParameters
  GPA_Conditions :: "Condition list"
  GPA_AtProvider :: IAMGroupPolicyAttachmentObservation

text \<open>
  A value of the interface \<^verbatim>\<open>resource.Managed\<close>: a resource of one of the kinds, or the
  nil interface value (the \<^verbatim>\<open>unexpectedItem\<close> of the tests). The type assertion
  \<^verbatim>\<open>mg.(*v1alpha1.ELBAttachment)\<close> succeeds on \<open>ELBAttachmentMg\<close> only.
\<close>

datatype 'o managed =
    ELBAttachmentMg "'o ELBAttachment"
  | IAMGroupPolicyAttachmentMg IAMGroupPolicyAttachment
  | NilMg

section \<open>Collaborators\<close>

text \<open>The provider configuration and the secret that Connect reads through the API client.\<close>

record SecretKeySelector =
  SecretNamespace :: string
  SecretName :: string
  Key :: string

record Provider =
  Region :: string
  UseServiceAccount :: "bool option"
  CredentialsSecretRef :: "SecretKeySelector option"

record Secret =
  Data :: "string \<rightharpoonup> string"

record NamespacedName =
  Namespace :: string
  Name :: string

text \<open>
  \<^verbatim>\<open>client.Client\<close>: \<^verbatim>\<open>Get(ctx, key, obj)\<close> fills \<open>obj\<close> or returns an error; one function
  for each type of object that is read.
\<close>

record kube_client =
  GetProvider :: "NamespacedName \<Rightarrow> error + Provider"
  GetSecret :: "NamespacedName \<Rightarrow> error + Secret"

datatype AuthMethod = UsePodServiceAccount | UseProviderSecret

text \<open>The requests of the provider API and the data they carry.\<close>

record Instance =
  InstanceId :: "string option"

record LoadBalancerDescription =
  LoadBalancerName :: "string option"
  Instances :: "Instance list"

record AttachedPolicy =
  PolicyArn :: "string option"
  PolicyName :: "string option"

datatype request =
    DescribeLoadBalancers "string list"
  | RegisterInstancesWithLoadBalancer "Instance list" "string option"
  | DeregisterInstancesFromLoadBalancer "Instance list" "string option"
  | ListAttachedGroupPolicies "string option"

text \<open>
  \<^verbatim>\<open>elb.Client\<close>: each request, sent, gives an error or the response. The register and
  deregister responses carry the list of instances of the load balancer.
\<close>

record elb_client =
  DescribeLoadBalancersRequest :: "string list \<Rightarrow> error + LoadBalancerDescription list"
  RegisterInstancesWithLoadBalancerRequest ::
    "Instance list \<Rightarrow> string option \<Rightarrow> error + Instance list"
  DeregisterInstancesFromLoadBalancerRequest ::
    "Instance list \<Rightarrow> string option \<Rightarrow> error + Instance list"

record GroupPolicyAttachmentClient =
  ListAttachedGroupPoliciesRequest :: "string option \<Rightarrow> error + AttachedPolicy list"

text \<open>The error of a \<^verbatim>\<open>Send\<close>, nil on success.\<close>

definition errorOf :: "error + 'a \<Rightarrow> error option" where
  "errorOf r = (case r of Inl err \<Rightarrow> Some err | Inr _ \<Rightarrow> None)"

section \<open>Results of the phase operations\<close>

text \<open>
  Modelled from the spec: the result types of the reconciler library, which is not
  among the source files. The observation is the tri-state result of the spec
  (exists, upToDate, lateInitialized); creation and update results carry connection
  details, empty in their zero value.
\<close>

record ExternalObservation =
  ResourceExists :: bool
  ResourceUpToDate :: bool
  ResourceLateInitialized :: bool

record ExternalCreation =
  CreationConnectionDetails :: "(string \<times> string) list"

record ExternalUpdate =
  UpdateConnectionDetails :: "(string \<times> string) list"

definition ExternalObservation_zero :: ExternalObservation where
  "ExternalObservation_zero =
     \<lparr>ResourceExists = False, ResourceUpToDate = False, ResourceLateInitialized = False\<rparr>"

definition ExternalCreation_zero :: ExternalCreation where
  "ExternalCreation_zero = \<lparr>CreationConnectionDetails = []\<rparr>"

definition ExternalUpdate_zero :: ExternalUpdate where
  "ExternalUpdate_zero = \<lparr>UpdateConnectionDetails = []\<rparr>"

text \<open>
  What an operation did, in order: the reads through the API client, the construction
  of the provider client, the conditions set on the resource and the requests sent to
  the provider.
\<close>

datatype event =
    KubeGetProvider NamespacedName
  | KubeGetSecret NamespacedName
  | NewClient AuthMethod
  | ConditionSet ConditionType
  | ExternalCall request

text \<open>
  The outcome of an operation on a resource passed by pointer: it returns a result and
  an error (nil is \<open>None\<close>), or it panics (a nil pointer dereference). Either way the
  outcome holds the resource as the operation left it and the events so far.
\<close>

datatype ('o, 'r) outcome =
    Returned "'o managed" 'r "error option" "event list"
  | Panicked "'o managed" "event list"

section \<open>The ELB attachment controller\<close>

definition errUnexpectedObject :: string where
  "errUnexpectedObject = ''The managed resource is not an ELBAttachment resource''"

definition errCreateELBClient :: string where
  "errCreateELBClient = ''cannot create ELB client''"

definition errGetProvider :: string where
  "errGetProvider = ''cannot get provider''"

definition errGetProviderSecret :: string where
  "errGetProviderSecret = ''cannot get provider secret''"

definition errDescribe :: string where
  "errDescribe = ''failed to list instances for given ELB''"

definition errMultipleItems :: string where
  "errMultipleItems = ''retrieved multiple ELBs for the given name''"

definition errCreate :: string where
  "errCreate = ''failed to register instance to ELB''"

definition errDelete :: string where
  "errDelete = ''failed to deregister instance from the ELB''"

text \<open>
  The connector and the handle it produces. The client function returns a client and
  an error, as in Go; the type \<open>'c\<close> of the client is \<open>elb_client option\<close> for the
  operations below (\<open>None\<close> is the nil client). The field \<^verbatim>\<open>kube\<close> of the handle is
  \<open>e_kube\<close> here, since the connector has a field of that name too. The client function
  of a connector is never nil: the controller is set up with \<^verbatim>\<open>elb.NewClient\<close>.
\<close>

record 'c connector =
  kube :: kube_client
  newClientFn :: "string \<Rightarrow> string \<Rightarrow> AuthMethod \<Rightarrow> 'c \<times> error option"

record 'c external =
  e_kube :: kube_client
  client :: 'c

text \<open>The secret's bytes under a key; a missing key reads as the empty slice.\<close>

definition secretData :: "Secret \<Rightarrow> string \<Rightarrow> string" where
  "secretData s k = (case Data s k of None \<Rightarrow> [] | Some b \<Rightarrow> b)"

text \<open>
  \<^verbatim>\<open>connector.Connect\<close>. It returns the handle (nil is \<open>None\<close>), the error and the events.
  On the two paths that build a client, the handle is returned together with the
  wrapped error of the client function.
\<close>

definition Connect ::
  "'c connector \<Rightarrow> 'o managed \<Rightarrow> 'c external option \<times> error option \<times> event list" where
  "Connect c mg =
     (case mg of
        ELBAttachmentMg cr \<Rightarrow>
          (let pn = \<lparr>Namespace = [], Name = ProviderReference cr\<rparr> in
           case GetProvider (kube c) pn of
             Inl err \<Rightarrow> (None, Wrap (Some err) errGetProvider, [KubeGetProvider pn])
           | Inr p \<Rightarrow>
               if BoolValue (UseServiceAccount p) then
                 (let (elbClient, err) = newClientFn c [] (Region p) UsePodServiceAccount
                  in (Some \<lparr>e_kube = kube c, client = elbClient\<rparr>,
                      Wrap err errCreateELBClient,
                      [KubeGetProvider pn, NewClient UsePodServiceAccount]))
               else
                 (case CredentialsSecretRef p of
                    None \<Rightarrow> (None, Some (ErrNew errGetProviderSecret), [KubeGetProvider pn])
                  | Some ref \<Rightarrow>
                      (let n = \<lparr>Namespace = SecretNamespace ref, Name = SecretName ref\<rparr> in
                       case GetSecret (kube c) n of
                         Inl err \<Rightarrow>
                           (None, Wrap (Some err) errGetProviderSecret,
                            [KubeGetProvider pn, KubeGetSecret n])
                       | Inr s \<Rightarrow>
                           (let (elbClient, err) =
                                  newClientFn c (secretData s (Key ref)) (Region p)
                                    UseProviderSecret
                            in (Some \<lparr>e_kube = kube c, client = elbClient\<rparr>,
                                Wrap err errCreateELBClient,
                                [KubeGetProvider pn, KubeGetSecret n,
                                 NewClient UseProviderSecret])))))
      | _ \<Rightarrow> (None, Some (ErrNew errUnexpectedObject), []))"

text \<open>
  The loop of Observe over the instances of the load balancer: \<open>inst\<close> is the variable
  \<^verbatim>\<open>instance\<close>, overwritten at each match. \<^verbatim>\<open>*v.InstanceId\<close> dereferences the pointer, so
  an instance without an id makes the loop panic: the result is \<open>None\<close>.
\<close>

fun findInstance :: "string \<Rightarrow> Instance list \<Rightarrow> string \<Rightarrow> string option" where
  "findInstance want [] inst = Some inst"
| "findInstance want (v # vs) inst =
     (case InstanceId v of
        None \<Rightarrow> None
      | Some i \<Rightarrow> findInstance want vs (if i = want then StringValue (InstanceId v) else inst))"

text \<open>
  \<^verbatim>\<open>external.Observe\<close>. \<open>IsELBNotFound\<close> is the predicate \<^verbatim>\<open>elb.IsELBNotFound\<close>, which is
  declared outside the source files and taken as a parameter; \<open>now\<close> is the clock.
\<close>

definition Observe ::
  "(error option \<Rightarrow> bool) \<Rightarrow> nat \<Rightarrow> elb_client option external \<Rightarrow> 'o managed
     \<Rightarrow> ('o, ExternalObservation) outcome" where
  "Observe IsELBNotFound now e mgd =
     (case mgd of
        ELBAttachmentMg cr \<Rightarrow>
          (case client e of
             None \<Rightarrow> Panicked mgd []
           | Some cl \<Rightarrow>
               (let names = [ELBName (ForProvider cr)];
                    sent = [ExternalCall (DescribeLoadBalancers names)] in
                case DescribeLoadBalancersRequest cl names of
                  Inl err \<Rightarrow>
                    Returned mgd ExternalObservation_zero
                      (Wrap (Ignore IsELBNotFound (Some err)) errDescribe) sent
                | Inr descriptions \<Rightarrow>
                    if length descriptions \<noteq> 1 then
                      Returned mgd ExternalObservation_zero (Some (ErrNew errMultipleItems)) sent
                    else
                      (let observed = descriptions ! 0 in
                       case findInstance (InstanceID (ForProvider cr)) (Instances observed) [] of
                         None \<Rightarrow> Panicked mgd sent
                       | Some inst \<Rightarrow>
                           if inst = [] then Returned mgd ExternalObservation_zero None sent
                           else
                             Returned
                               (ELBAttachmentMg
                                  (cr\<lparr>Conditions := SetConditions [Available now] (Conditions cr)\<rparr>))
                               \<lparr>ResourceExists = True, ResourceUpToDate = True,
                                ResourceLateInitialized = False\<rparr>
                               None
                               (sent @ [ConditionSet TypeAvailable]))))
      | _ \<Rightarrow> Returned mgd ExternalObservation_zero (Some (ErrNew errUnexpectedObject)) [])"

text \<open>
  \<^verbatim>\<open>external.Create\<close>. The condition is set first; the response of the register call is
  dropped and only its error is kept.
\<close>

definition Create ::
  "nat \<Rightarrow> elb_client option external \<Rightarrow> 'o managed \<Rightarrow> ('o, ExternalCreation) outcome" where
  "Create now e mgd =
     (case mgd of
        ELBAttachmentMg cr0 \<Rightarrow>
          (let cr = cr0\<lparr>Conditions := SetConditions [Creating now] (Conditions cr0)\<rparr>;
               instances = [\<lparr>InstanceId = Some (InstanceID (ForProvider cr))\<rparr>];
               name = Some (ELBName (ForProvider cr)) in
           case client e of
             None \<Rightarrow> Panicked (ELBAttachmentMg cr) [ConditionSet TypeCreating]
           | Some cl \<Rightarrow>
               (let err = errorOf (RegisterInstancesWithLoadBalancerRequest cl instances name)
                in Returned (ELBAttachmentMg cr) ExternalCreation_zero (Wrap err errCreate)
                     [ConditionSet TypeCreating,
                      ExternalCall (RegisterInstancesWithLoadBalancer instances name)]))
      | _ \<Rightarrow> Returned mgd ExternalCreation_zero (Some (ErrNew errUnexpectedObject)) [])"

text \<open>\<^verbatim>\<open>external.Update\<close>: it looks at nothing and returns the zero result and a nil error.\<close>

definition Update ::
  "elb_client option external \<Rightarrow> 'o managed \<Rightarrow> ('o, ExternalUpdate) outcome" where
  "Update e mgd = Returned mgd ExternalUpdate_zero None []"

text \<open>
  \<^verbatim>\<open>external.Delete\<close>. \<open>IsVPCNotFoundErr\<close> is the predicate \<^verbatim>\<open>ec2.IsVPCNotFoundErr\<close> that the
  code passes to \<^verbatim>\<open>resource.Ignore\<close>; it is declared outside the source files and taken as
  a parameter. Delete returns an error only, so the result is \<open>()\<close>.
\<close>

definition Delete ::
  "(error option \<Rightarrow> bool) \<Rightarrow> nat \<Rightarrow> elb_client option external \<Rightarrow> 'o managed
     \<Rightarrow> ('o, unit) outcome" where
  "Delete IsVPCNotFoundErr now e mgd =
     (case mgd of
        ELBAttachmentMg cr0 \<Rightarrow>
          (let cr = cr0\<lparr>Conditions := SetConditions [Deleting now] (Conditions cr0)\<rparr>;
               instances = [\<lparr>InstanceId = Some (InstanceID (ForProvider cr))\<rparr>];
               name = Some (ELBName (ForProvider cr)) in
           case client e of
             None \<Rightarrow> Panicked (ELBAttachmentMg cr) [ConditionSet TypeDeleting]
           | Some cl \<Rightarrow>
               (let err = errorOf (DeregisterInstancesFromLoadBalancerRequest cl instances name)
                in Returned (ELBAttachmentMg cr) ()
                     (Wrap (Ignore IsVPCNotFoundErr err) errDelete)
                     [ConditionSet TypeDeleting,
                      ExternalCall (DeregisterInstancesFromLoadBalancer instances name)]))
      | _ \<Rightarrow> Returned mgd () (Some (ErrNew errUnexpectedObject)) [])"

section \<open>The group-policy attachment controller\<close>

text \<open>The first attached policy with the given ARN, compared by value.\<close>

definition findPolicy :: "string \<Rightarrow> AttachedPolicy list \<Rightarrow> AttachedPolicy option" where
  "findPolicy arn ps = find (\<lambda>p. StringValue (PolicyArn p) = arn) ps"

text \<open>
  Modelled from the spec: Observe of the group-policy attachment controller, of which
  only the test suite is among the source files. It lists the policies attached to the
  group of the desired state. A list error recognised by the not-found predicate of
  the resource kind is treated as absence, any other is returned wrapped with the
  observe tag. When the list does not contain the policy ARN of the desired state the
  result is \<open>exists = false\<close> and nothing is set; when it does, the condition Available
  is set, the observed state is overwritten with the ARN found, and the result is
  \<open>exists = true, upToDate = true\<close>. The messages \<open>errUnexpected\<close> and \<open>errGet\<close> are
  the controller's constants \<^verbatim>\<open>errUnexpectedObject\<close> and \<^verbatim>\<open>errGet\<close>, which the tests name.
\<close>

definition Observe_GroupPolicyAttachment ::
  "(error option \<Rightarrow> bool) \<Rightarrow> string \<Rightarrow> string \<Rightarrow> nat \<Rightarrow> GroupPolicyAttachmentClient option
     \<Rightarrow> 'o managed \<Rightarrow> ('o, ExternalObservation) outcome" where
  "Observe_GroupPolicyAttachment IsNotFound errUnexpected errGet now iam mgd =
     (case mgd of
        IAMGroupPolicyAttachmentMg cr \<Rightarrow>
          (case iam of
             None \<Rightarrow> Panicked mgd []
           | Some cl \<Rightarrow>
               (let group = GroupName (GPA_ForProvider cr);
                    sent = [ExternalCall (ListAttachedGroupPolicies group)] in
                case ListAttachedGroupPoliciesRequest cl group of
                  Inl err \<Rightarrow>
                    Returned mgd ExternalObservation_zero
                      (Wrap (Ignore IsNotFound (Some err)) errGet) sent
                | Inr policies \<Rightarrow>
                    (case findPolicy (StringValue (PolicyARN (GPA_ForProvider cr))) policies of
                       None \<Rightarrow> Returned mgd ExternalObservation_zero None sent
                     | Some policy \<Rightarrow>
                         Returned
                           (IAMGroupPolicyAttachmentMg
                              (cr\<lparr>GPA_Conditions :=
                                    SetConditions [Available now] (GPA_Conditions cr),
                                  GPA_AtProvider :=
                                    \<lparr>AttachedPolicyARN = StringValue (PolicyArn policy)\<rparr>\<rparr>))
                           \<lparr>ResourceExists = True, ResourceUpToDate = True,
                            ResourceLateInitialized = False\<rparr>
                           None
                           (sent @ [ConditionSet TypeAvailable]))))
      | _ \<Rightarrow> Returned mgd ExternalObservation_zero (Some (ErrNew errUnexpected)) [])"

section \<open>Notions used by the properties\<close>

text \<open>The resource an operation leaves behind, and the events it produced.\<close>

fun resourceOf :: "('o, 'r) outcome \<Rightarrow> 'o managed" where
  "resourceOf (Returned mgd r err evs) = mgd"
| "resourceOf (Panicked mgd evs) = mgd"

fun eventsOf :: "('o, 'r) outcome \<Rightarrow> event list" where
  "eventsOf (Returned mgd r err evs) = evs"
| "eventsOf (Panicked mgd evs) = evs"

text \<open>Whether a value is of the type the ELB attachment controller expects.\<close>

fun isELBAttachment :: "'o managed \<Rightarrow> bool" where
  "isELBAttachment (ELBAttachmentMg cr) = True"
| "isELBAttachment _ = False"

text \<open>
  An identity is recorded by a creation when the creation result carries it or the
  resource holds it as its external identity.
\<close>

definition recordsIdentity :: "string \<Rightarrow> 'o managed \<Rightarrow> ExternalCreation \<Rightarrow> bool" where
  "recordsIdentity ident mgd r =
     (ident \<in> set (map snd (CreationConnectionDetails r)) \<or>
      (case mgd of ELBAttachmentMg cr \<Rightarrow> ExternalName cr = Some ident | _ \<Rightarrow> False))"

text \<open>
  A not-found predicate of the usual form: the error is an error of the provider API
  with the given code.
\<close>

definition hasAwsCode :: "string \<Rightarrow> error option \<Rightarrow> bool" where
  "hasAwsCode code err = (case err of Some (ErrAws c m) \<Rightarrow> c = code | _ \<Rightarrow> False)"

text \<open>The error an operation returned; a panic returns none.\<close>

fun returnedError :: "('o, 'r) outcome \<Rightarrow> error option" where
  "returnedError (Returned mgd r err evs) = err"
| "returnedError (Panicked mgd evs) = None"

text \<open>The handle and the error of a Connect.\<close>

fun handleOf :: "'c external option \<times> error option \<times> event list \<Rightarrow> 'c external option" where
  "handleOf (h, err, evs) = h"

fun connectError :: "'c external option \<times> error option \<times> event list \<Rightarrow> error option" where
  "connectError (h, err, evs) = err"

text \<open>
  The three failures of Connect that come from the provider configuration: the provider
  cannot be fetched, or it is not in ambient-identity mode and has no secret reference,
  or the secret cannot be fetched.
\<close>

definition listedFailure :: "'c connector \<Rightarrow> 'o ELBAttachment \<Rightarrow> bool" where
  "listedFailure c cr =
     (case GetProvider (kube c) \<lparr>Namespace = [], Name = ProviderReference cr\<rparr> of
        Inl err \<Rightarrow> True
      | Inr p \<Rightarrow>
          \<not> BoolValue (UseServiceAccount p) \<and>
          (case CredentialsSecretRef p of
             None \<Rightarrow> True
           | Some ref \<Rightarrow>
               isl (GetSecret (kube c)
                      \<lparr>Namespace = SecretNamespace ref, Name = SecretName ref\<rparr>)))"

section \<open>Example values\<close>

text \<open>
  The values of the test suite: the error \<^verbatim>\<open>errBoom\<close>, the provider named \<^verbatim>\<open>aws-creds\<close> in
  region \<^verbatim>\<open>us-east-1\<close>, its secret, a mock API client that answers for these two keys,
  and client functions and provider clients that succeed or fail.
\<close>

definition errBoom :: error where "errBoom = ErrNew ''boom''"

definition errLoadBalancerNotFound :: error where
  "errLoadBalancerNotFound = ErrAws ''LoadBalancerNotFound'' ''There is no ACTIVE Load Balancer''"

definition exampleAttachment :: "unit ELBAttachment" where
  "exampleAttachment = \<lparr>ExternalName = None, ProviderReference = ''aws-creds'',
     ForProvider = \<lparr>ELBName = ''some elb'', InstanceID = ''i-0abc''\<rparr>,
     Conditions = [], AtProvider = ()\<rparr>"

definition nilManaged :: "unit managed" where
  "nilManaged = NilMg"

definition groupPolicy :: IAMGroupPolicyAttachment where
  "groupPolicy = \<lparr>GPA_ProviderReference = ''aws-creds'',
     GPA_ForProvider = \<lparr>GroupName = Some ''some group'', PolicyARN = Some ''some arn''\<rparr>,
     GPA_Conditions = [], GPA_AtProvider = \<lparr>AttachedPolicyARN = []\<rparr>\<rparr>"

definition failingClient :: "error \<Rightarrow> elb_client" where
  "failingClient err = \<lparr>DescribeLoadBalancersRequest = (\<lambda>names. Inl err),
     RegisterInstancesWithLoadBalancerRequest = (\<lambda>instances name. Inl err),
     DeregisterInstancesFromLoadBalancerRequest = (\<lambda>instances name. Inl err)\<rparr>"

definition describingClient :: "LoadBalancerDescription list \<Rightarrow> elb_client" where
  "describingClient descriptions = \<lparr>DescribeLoadBalancersRequest = (\<lambda>names. Inr descriptions),
     RegisterInstancesWithLoadBalancerRequest = (\<lambda>instances name. Inr instances),
     DeregisterInstancesFromLoadBalancerRequest = (\<lambda>instances name. Inr [])\<rparr>"

definition registeringClient :: elb_client where
  "registeringClient = describingClient []"

definition listingClient :: "AttachedPolicy list \<Rightarrow> GroupPolicyAttachmentClient" where
  "listingClient policies = \<lparr>ListAttachedGroupPoliciesRequest = (\<lambda>group. Inr policies)\<rparr>"

definition emptyKube :: kube_client where
  "emptyKube = \<lparr>GetProvider = (\<lambda>key. Inl errBoom), GetSecret = (\<lambda>key. Inl errBoom)\<rparr>"

definition handle :: "elb_client \<Rightarrow> elb_client option external" where
  "handle cl = \<lparr>e_kube = emptyKube, client = Some cl\<rparr>"

definition nilHandle :: "elb_client option external" where
  "nilHandle = \<lparr>e_kube = emptyKube, client = None\<rparr>"

definition exampleSecretRef :: SecretKeySelector where
  "exampleSecretRef = \<lparr>SecretNamespace = ''crossplane-system'',
     SecretName = ''my-little-secret'', Key = ''credentials''\<rparr>"

definition exampleProvider :: "bool \<Rightarrow> SecretKeySelector option \<Rightarrow> Provider" where
  "exampleProvider sa ref = \<lparr>Region = ''us-east-1'', UseServiceAccount = Some sa,
     CredentialsSecretRef = ref\<rparr>"

definition exampleSecret :: Secret where
  "exampleSecret = \<lparr>Data = [''credentials'' \<mapsto> ''confidential!'']\<rparr>"

definition mockKube :: "error + Provider \<Rightarrow> error + Secret \<Rightarrow> kube_client" where
  "mockKube p s =
     \<lparr>GetProvider = (\<lambda>key. if key = \<lparr>Namespace = [], Name = ''aws-creds''\<rparr> then p
                             else Inl errBoom),
      GetSecret = (\<lambda>key. if key = \<lparr>Namespace = ''crossplane-system'',
                                      Name = ''my-little-secret''\<rparr> then s
                           else Inl errBoom)\<rparr>"

definition ambientKube :: kube_client where
  "ambientKube = mockKube (Inr (exampleProvider True (Some exampleSecretRef))) (Inl errBoom)"

definition secretKube :: kube_client where
  "secretKube = mockKube (Inr (exampleProvider False (Some exampleSecretRef))) (Inr exampleSecret)"

definition okClientFn :: "string \<Rightarrow> string \<Rightarrow> AuthMethod \<Rightarrow> elb_client option \<times> error option" where
  "okClientFn credentials region auth = (Some (describingClient []), None)"

definition failingClientFn :: "string \<Rightarrow> string \<Rightarrow> AuthMethod \<Rightarrow> elb_client option \<times> error option" where
  "failingClientFn credentials region auth = (None, Some errBoom)"

definition failingConnector :: "elb_client option connector" where
  "failingConnector = \<lparr>kube = emptyKube, newClientFn = failingClientFn\<rparr>"

section \<open>Setting conditions\<close>

lemma Type_replaceCondition: "Type (replaceCondition old new) = Type new"
  by (simp add: replaceCondition_def)

lemma map_Type_replace:
  "map Type (map (\<lambda>c. if Type c = t then replaceCondition c new else c) cs) =
     map (\<lambda>c. if Type c = t then Type new else Type c) cs"
  by (simp add: Type_replaceCondition if_distrib cong: if_cong)

lemma map_Type_SetCondition:
  "map Type (SetCondition new cs) =
     (if Type new \<in> set (map Type cs) then map Type cs else map Type cs @ [Type new])"
proof -
  have "map (\<lambda>c. if Type c = Type new then Type new else Type c) cs = map Type cs"
    by (rule map_cong) auto
  then show ?thesis
    by (auto simp: SetCondition_def list_ex_iff map_Type_replace simp del: map_map
          intro: rev_image_eqI)
qed

lemma hasCondition_iff: "hasCondition t cs \<longleftrightarrow> t \<in> set (map Type cs)"
  by (auto simp: hasCondition_def list_ex_iff image_iff)

lemma onePerType_SetCondition: "onePerType cs \<Longrightarrow> onePerType (SetCondition new cs)"
  by (simp add: onePerType_def map_Type_SetCondition)

lemma onePerType_SetConditions:
  "onePerType cs \<Longrightarrow> onePerType (SetConditions news cs)"
  by (induction news arbitrary: cs) (simp_all add: onePerType_SetCondition)

lemma ofType_map_replace_other:
  "t \<noteq> Type new \<Longrightarrow>
   ofType t (map (\<lambda>c. if Type c = Type new then replaceCondition c new else c) cs) = ofType t cs"
  by (induction cs) (auto simp: ofType_def Type_replaceCondition)

lemma ofType_SetCondition_other:
  "t \<noteq> Type new \<Longrightarrow> ofType t (SetCondition new cs) = ofType t cs"
  using ofType_map_replace_other[of t new cs]
  by (auto simp: SetCondition_def) (simp add: ofType_def)

lemma ofType_Nil_iff: "ofType t cs = [] \<longleftrightarrow> \<not> hasCondition t cs"
  by (auto simp: ofType_def hasCondition_def list_ex_iff filter_empty_conv)

lemma ofType_map_replace:
  "ofType (Type new) (map (\<lambda>c. if Type c = Type new then replaceCondition c new else c) cs)
     = map (\<lambda>c. replaceCondition c new) (ofType (Type new) cs)"
  by (induction cs) (auto simp: ofType_def Type_replaceCondition)

lemma onePerType_ofType: "onePerType cs \<Longrightarrow> length (ofType t cs) \<le> 1"
proof (induction cs)
  case Nil
  then show ?case by (simp add: ofType_def)
next
  case (Cons c cs)
  show ?case
  proof (cases "Type c = t")
    case True
    with Cons.prems have "t \<notin> Type ` set cs" by (simp add: onePerType_def)
    then have "ofType t cs = []" by (auto simp: ofType_def filter_empty_conv)
    with True show ?thesis by (simp add: ofType_def)
  next
    case False
    with Cons show ?thesis by (simp add: ofType_def onePerType_def)
  qed
qed

lemma ofType_SetCondition_same:
  assumes "onePerType cs"
  shows "ofType (Type new) (SetCondition new cs) =
     [case ofType (Type new) cs of [] \<Rightarrow> new | old # _ \<Rightarrow> replaceCondition old new]"
proof (cases "ofType (Type new) cs")
  case Nil
  then have "\<not> list_ex (\<lambda>c. Type c = Type new) cs"
    by (simp add: ofType_Nil_iff hasCondition_def)
  with Nil show ?thesis by (simp add: SetCondition_def) (simp add: ofType_def)
next
  case (Cons old rest)
  from onePerType_ofType[OF assms, of "Type new"] Cons have "rest = []" by simp
  moreover from Cons have "list_ex (\<lambda>c. Type c = Type new) cs"
    using ofType_Nil_iff[of "Type new" cs] by (simp add: hasCondition_def)
  ultimately show ?thesis using Cons by (simp add: SetCondition_def ofType_map_replace)
qed

lemma length_SetCondition_present:
  "hasCondition (Type new) cs \<Longrightarrow> length (SetCondition new cs) = length cs"
  by (simp add: SetCondition_def hasCondition_def)

lemma hasCondition_SetCondition: "hasCondition (Type new) (SetCondition new cs)"
  unfolding hasCondition_iff map_Type_SetCondition by simp

text \<open>
  C8. On a status with at most one condition per type, setting a condition \<open>a\<close> and then
  a condition \<open>b\<close> of another type leaves exactly one condition of each of the two
  types, and again at most one per type overall; the one of each type is the condition
  just set (with the transition time of its predecessor when there was one of the same
  status). Setting a condition whose type is already present does not change the length
  of the list: it takes the place of the old one, and its transition time is the old
  one's unless the status changed.
\<close>

theorem SetConditions_replace_not_append:
  assumes "onePerType cs" and "Type a \<noteq> Type b"
  shows "onePerType (SetConditions [b] (SetConditions [a] cs))
       \<and> ofType (Type a) (SetConditions [b] (SetConditions [a] cs)) =
           [case ofType (Type a) cs of [] \<Rightarrow> a | old # _ \<Rightarrow> replaceCondition old a]
       \<and> ofType (Type b) (SetConditions [b] (SetConditions [a] cs)) =
           [case ofType (Type b) cs of [] \<Rightarrow> b | old # _ \<Rightarrow> replaceCondition old b]
       \<and> (\<forall>old \<in> set cs. Type old = Type a \<longrightarrow>
            length (SetConditions [a] cs) = length cs \<and>
            ofType (Type a) (SetConditions [a] cs) =
              [a\<lparr>LastTransitionTime :=
                   if Status old = Status a then LastTransitionTime old
                   else LastTransitionTime a\<rparr>])"
proof -
  have inv: "onePerType (SetCondition a cs)"
    using assms(1) by (rule onePerType_SetCondition)
  have 1: "onePerType (SetConditions [b] (SetConditions [a] cs))"
    using inv by (simp add: onePerType_SetCondition)
  have 2: "ofType (Type a) (SetConditions [b] (SetConditions [a] cs)) =
           [case ofType (Type a) cs of [] \<Rightarrow> a | old # _ \<Rightarrow> replaceCondition old a]"
    using assms by (simp add: ofType_SetCondition_other ofType_SetCondition_same)
  have 3: "ofType (Type b) (SetConditions [b] (SetConditions [a] cs)) =
           [case ofType (Type b) cs of [] \<Rightarrow> b | old # _ \<Rightarrow> replaceCondition old b]"
    using assms inv
    by (simp add: ofType_SetCondition_same ofType_SetCondition_other[of "Type b" a cs])
  have 4: "length (SetConditions [a] cs) = length cs \<and>
            ofType (Type a) (SetConditions [a] cs) =
              [a\<lparr>LastTransitionTime :=
                   if Status old = Status a then LastTransitionTime old
                   else LastTransitionTime a\<rparr>]"
    if old: "old \<in> set cs" "Type old = Type a" for old
  proof -
    from old have has: "hasCondition (Type a) cs"
      by (auto simp: hasCondition_def list_ex_iff)
    from old have "old \<in> set (ofType (Type a) cs)" by (simp add: ofType_def)
    moreover have "length (ofType (Type a) cs) \<le> 1"
      using assms(1) by (rule onePerType_ofType)
    ultimately have "ofType (Type a) cs = [old]"
      by (cases "ofType (Type a) cs") auto
    then show ?thesis
      using has assms(1)
      by (simp add: length_SetCondition_present ofType_SetCondition_same replaceCondition_def)
  qed
  from 1 2 3 4 show ?thesis by blast
qed

theorem SetConditions_replace_not_append_witness:
  "onePerType [Creating 1]
   \<and> Type (Creating 5) \<noteq> Type (Available 7)
   \<and> SetConditions [Available 7] (SetConditions [Creating 5] [Creating 1]) =
       [Creating 1, Available 7]
   \<and> ofType TypeCreating [Creating 1, Available 7] = [Creating 1]
   \<and> ofType TypeAvailable [Creating 1, Available 7] = [Available 7]"
proof -
  have h1: "onePerType [Creating 1]" by (simp add: onePerType_def)
  have h2: "Type (Creating 5) \<noteq> Type (Available 7)" by (simp add: Creating_def Available_def)
  have r: "SetConditions [Available 7] (SetConditions [Creating 5] [Creating 1]) =
       [Creating 1, Available 7]"
    by (simp add: SetCondition_def replaceCondition_def Creating_def Available_def)
  show ?thesis
    using h1 h2 r SetConditions_replace_not_append[OF h1 h2]
    by (simp add: ofType_def Creating_def Available_def replaceCondition_def)
qed

section \<open>Create\<close>

lemma Create_returns:
  "client e = Some cl \<Longrightarrow>
   Create now e (ELBAttachmentMg cr) =
     Returned (ELBAttachmentMg (cr\<lparr>Conditions := SetConditions [Creating now] (Conditions cr)\<rparr>))
       ExternalCreation_zero
       (Wrap (errorOf (RegisterInstancesWithLoadBalancerRequest cl
                 [\<lparr>InstanceId = Some (InstanceID (ForProvider cr))\<rparr>]
                 (Some (ELBName (ForProvider cr))))) errCreate)
       [ConditionSet TypeCreating,
        ExternalCall (RegisterInstancesWithLoadBalancer
           [\<lparr>InstanceId = Some (InstanceID (ForProvider cr))\<rparr>] (Some (ELBName (ForProvider cr))))]"
  by (simp add: Create_def Let_def)

lemma resourceOf_Create:
  "resourceOf (Create now e (ELBAttachmentMg cr)) =
     ELBAttachmentMg (cr\<lparr>Conditions := SetConditions [Creating now] (Conditions cr)\<rparr>)"
  by (simp add: Create_def Let_def split: option.splits)

lemma eventsOf_Create:
  "eventsOf (Create now e (ELBAttachmentMg cr)) =
     ConditionSet TypeCreating #
       (if client e = None then []
        else [ExternalCall (RegisterInstancesWithLoadBalancer
                [\<lparr>InstanceId = Some (InstanceID (ForProvider cr))\<rparr>]
                (Some (ELBName (ForProvider cr))))])"
  by (simp add: Create_def Let_def split: option.splits)

text \<open>
  C1. Create on an ELB attachment sets the condition Creating whatever happens next:
  the resource it leaves behind is the input with Creating set and nothing else changed,
  and the first event is the setting of the condition, followed by the register call
  when there is a client. When the register call returns an error, Create returns that
  error wrapped with the message of the create phase, the conditions contain Creating,
  and the observed state, the external identity and the desired state are unchanged.
\<close>

theorem Create_sets_Creating_before_call:
  "resourceOf (Create now e (ELBAttachmentMg cr)) =
     ELBAttachmentMg (cr\<lparr>Conditions := SetConditions [Creating now] (Conditions cr)\<rparr>)
   \<and> hasCondition TypeCreating (SetConditions [Creating now] (Conditions cr))
   \<and> eventsOf (Create now e (ELBAttachmentMg cr)) =
       ConditionSet TypeCreating #
         (if client e = None then []
          else [ExternalCall (RegisterInstancesWithLoadBalancer
                  [\<lparr>InstanceId = Some (InstanceID (ForProvider cr))\<rparr>]
                  (Some (ELBName (ForProvider cr))))])
   \<and> (\<forall>cl err.
        client e = Some cl \<and>
        RegisterInstancesWithLoadBalancerRequest cl
          [\<lparr>InstanceId = Some (InstanceID (ForProvider cr))\<rparr>] (Some (ELBName (ForProvider cr)))
          = Inl err \<longrightarrow>
        (\<exists>cr'. Create now e (ELBAttachmentMg cr) =
                 Returned (ELBAttachmentMg cr') ExternalCreation_zero
                   (Some (ErrWrap err errCreate))
                   [ConditionSet TypeCreating,
                    ExternalCall (RegisterInstancesWithLoadBalancer
                      [\<lparr>InstanceId = Some (InstanceID (ForProvider cr))\<rparr>]
                      (Some (ELBName (ForProvider cr))))]
               \<and> hasCondition TypeCreating (Conditions cr')
               \<and> AtProvider cr' = AtProvider cr
               \<and> ExternalName cr' = ExternalName cr
               \<and> ForProvider cr' = ForProvider cr))"
proof -
  have has: "hasCondition TypeCreating (SetConditions [Creating now] (Conditions cr))"
    using hasCondition_SetCondition[of "Creating now" "Conditions cr"]
    by (simp add: Creating_def)
  show ?thesis
    using has by (auto simp: resourceOf_Create eventsOf_Create Create_returns errorOf_def)
qed

theorem Create_sets_Creating_before_call_witness:
  "client (handle (failingClient errBoom)) = Some (failingClient errBoom)
   \<and> RegisterInstancesWithLoadBalancerRequest (failingClient errBoom)
        [\<lparr>InstanceId = Some (InstanceID (ForProvider exampleAttachment))\<rparr>]
        (Some (ELBName (ForProvider exampleAttachment))) = Inl errBoom
   \<and> Create 7 (handle (failingClient errBoom)) (ELBAttachmentMg exampleAttachment) =
        Returned (ELBAttachmentMg (exampleAttachment\<lparr>Conditions := [Creating 7]\<rparr>))
          ExternalCreation_zero (Some (ErrWrap errBoom errCreate))
          [ConditionSet TypeCreating,
           ExternalCall (RegisterInstancesWithLoadBalancer
             [\<lparr>InstanceId = Some ''i-0abc''\<rparr>] (Some ''some elb''))]"
proof -
  have c: "client (handle (failingClient errBoom)) = Some (failingClient errBoom)"
    by (simp add: handle_def)
  have r: "RegisterInstancesWithLoadBalancerRequest (failingClient errBoom)
        [\<lparr>InstanceId = Some (InstanceID (ForProvider exampleAttachment))\<rparr>]
        (Some (ELBName (ForProvider exampleAttachment))) = Inl errBoom"
    by (simp add: failingClient_def)
  from Create_sets_Creating_before_call[of 7 "handle (failingClient errBoom)" exampleAttachment]
  have "resourceOf (Create 7 (handle (failingClient errBoom)) (ELBAttachmentMg exampleAttachment)) =
     ELBAttachmentMg (exampleAttachment\<lparr>Conditions := SetConditions [Creating 7] (Conditions exampleAttachment)\<rparr>)"
   and "\<exists>cr'. Create 7 (handle (failingClient errBoom)) (ELBAttachmentMg exampleAttachment) =
                 Returned (ELBAttachmentMg cr') ExternalCreation_zero
                   (Some (ErrWrap errBoom errCreate))
                   [ConditionSet TypeCreating,
                    ExternalCall (RegisterInstancesWithLoadBalancer
                      [\<lparr>InstanceId = Some (InstanceID (ForProvider exampleAttachment))\<rparr>]
                      (Some (ELBName (ForProvider exampleAttachment))))]"
    using c r by blast+
  then show ?thesis using c r
    by (auto simp: exampleAttachment_def SetCondition_def)
qed

text \<open>
  C4, as the claim states it: a register call that succeeds and returns the instance
  \<^verbatim>\<open>i-0abc\<close>. Create returns the zero creation result, and neither the result nor the
  resource records the identity.
\<close>

theorem Create_records_no_identity:
  "RegisterInstancesWithLoadBalancerRequest registeringClient
     [\<lparr>InstanceId = Some ''i-0abc''\<rparr>] (Some ''some elb'') = Inr [\<lparr>InstanceId = Some ''i-0abc''\<rparr>]
   \<and> Create 7 (handle registeringClient) (ELBAttachmentMg exampleAttachment) =
       Returned (ELBAttachmentMg (exampleAttachment\<lparr>Conditions := [Creating 7]\<rparr>))
         ExternalCreation_zero None
         [ConditionSet TypeCreating,
          ExternalCall (RegisterInstancesWithLoadBalancer
            [\<lparr>InstanceId = Some ''i-0abc''\<rparr>] (Some ''some elb''))]
   \<and> \<not> recordsIdentity ''i-0abc''
         (ELBAttachmentMg (exampleAttachment\<lparr>Conditions := [Creating 7]\<rparr>)) ExternalCreation_zero"
  by (simp add: Create_returns[where cl = registeringClient] handle_def registeringClient_def
        describingClient_def errorOf_def exampleAttachment_def SetCondition_def
        recordsIdentity_def ExternalCreation_zero_def)

text \<open>
  C4, amended. When the register call succeeds, Create returns the zero creation result
  and a nil error; the response is dropped. The resource is the input with the condition
  Creating set, so the only identity recorded on it is the external identity it already
  had.
\<close>

theorem Create_success_discards_response:
  assumes "client e = Some cl"
    and "RegisterInstancesWithLoadBalancerRequest cl
           [\<lparr>InstanceId = Some (InstanceID (ForProvider cr))\<rparr>] (Some (ELBName (ForProvider cr)))
         = Inr response"
  shows "Create now e (ELBAttachmentMg cr) =
           Returned
             (ELBAttachmentMg (cr\<lparr>Conditions := SetConditions [Creating now] (Conditions cr)\<rparr>))
             ExternalCreation_zero None
             [ConditionSet TypeCreating,
              ExternalCall (RegisterInstancesWithLoadBalancer
                [\<lparr>InstanceId = Some (InstanceID (ForProvider cr))\<rparr>]
                (Some (ELBName (ForProvider cr))))]
         \<and> (\<forall>ident. recordsIdentity ident
                (ELBAttachmentMg (cr\<lparr>Conditions := SetConditions [Creating now] (Conditions cr)\<rparr>))
                ExternalCreation_zero \<longleftrightarrow> ExternalName cr = Some ident)"
  using assms
  by (simp add: Create_returns errorOf_def recordsIdentity_def ExternalCreation_zero_def)

theorem Create_success_discards_response_witness:
  "client (handle registeringClient) = Some registeringClient
   \<and> RegisterInstancesWithLoadBalancerRequest registeringClient
        [\<lparr>InstanceId = Some (InstanceID (ForProvider exampleAttachment))\<rparr>]
        (Some (ELBName (ForProvider exampleAttachment))) = Inr [\<lparr>InstanceId = Some ''i-0abc''\<rparr>]
   \<and> Create 7 (handle registeringClient) (ELBAttachmentMg exampleAttachment) =
        Returned (ELBAttachmentMg (exampleAttachment\<lparr>Conditions := [Creating 7]\<rparr>))
          ExternalCreation_zero None
          [ConditionSet TypeCreating,
           ExternalCall (RegisterInstancesWithLoadBalancer
             [\<lparr>InstanceId = Some ''i-0abc''\<rparr>] (Some ''some elb''))]"
proof -
  have c: "client (handle registeringClient) = Some registeringClient"
    by (simp add: handle_def)
  have r: "RegisterInstancesWithLoadBalancerRequest registeringClient
        [\<lparr>InstanceId = Some (InstanceID (ForProvider exampleAttachment))\<rparr>]
        (Some (ELBName (ForProvider exampleAttachment))) = Inr [\<lparr>InstanceId = Some ''i-0abc''\<rparr>]"
    by (simp add: registeringClient_def describingClient_def exampleAttachment_def)
  show ?thesis
    using c r Create_success_discards_response[OF c r, of 7]
    by (simp add: exampleAttachment_def SetCondition_def)
qed

section \<open>Observe\<close>

text \<open>
  C2. When the describe call of Observe fails, the resource is left as it was and the
  observation is the zero one (\<open>exists = false\<close>); the error is nil when the not-found
  predicate recognises the error of the call, and otherwise that error wrapped with the
  message of the observe phase. In the first case the outcome is the one Observe gives
  for a load balancer without instances.
\<close>

theorem Observe_describe_error:
  assumes "client e = Some cl"
    and "DescribeLoadBalancersRequest cl [ELBName (ForProvider cr)] = Inl err"
  shows "Observe IsELBNotFound now e (ELBAttachmentMg cr) =
           Returned (ELBAttachmentMg cr) ExternalObservation_zero
             (if IsELBNotFound (Some err) then None else Some (ErrWrap err errDescribe))
             [ExternalCall (DescribeLoadBalancers [ELBName (ForProvider cr)])]
         \<and> \<not> ResourceExists ExternalObservation_zero
         \<and> (\<forall>e' cl' d. IsELBNotFound (Some err) \<and> client e' = Some cl' \<and>
               DescribeLoadBalancersRequest cl' [ELBName (ForProvider cr)] = Inr [d] \<and>
               Instances d = [] \<longrightarrow>
               Observe IsELBNotFound now e' (ELBAttachmentMg cr) =
               Observe IsELBNotFound now e (ELBAttachmentMg cr))"
  using assms
  by (auto simp: Observe_def Let_def Ignore_def ExternalObservation_zero_def)

theorem Observe_describe_error_witness:
  "client (handle (failingClient errLoadBalancerNotFound)) = Some (failingClient errLoadBalancerNotFound)
   \<and> DescribeLoadBalancersRequest (failingClient errLoadBalancerNotFound)
        [ELBName (ForProvider exampleAttachment)] = Inl errLoadBalancerNotFound
   \<and> Observe (hasAwsCode ''LoadBalancerNotFound'') 7 (handle (failingClient errLoadBalancerNotFound))
        (ELBAttachmentMg exampleAttachment) =
      Returned (ELBAttachmentMg exampleAttachment) ExternalObservation_zero None
        [ExternalCall (DescribeLoadBalancers [''some elb''])]
   \<and> Observe (hasAwsCode ''LoadBalancerNotFound'') 7
        (handle (describingClient [\<lparr>LoadBalancerName = Some ''some elb'', Instances = []\<rparr>]))
        (ELBAttachmentMg exampleAttachment) =
      Returned (ELBAttachmentMg exampleAttachment) ExternalObservation_zero None
        [ExternalCall (DescribeLoadBalancers [''some elb''])]
   \<and> Observe (hasAwsCode ''InvalidVpcID.NotFound'') 7 (handle (failingClient errLoadBalancerNotFound))
        (ELBAttachmentMg exampleAttachment) =
      Returned (ELBAttachmentMg exampleAttachment) ExternalObservation_zero
        (Some (ErrWrap errLoadBalancerNotFound errDescribe))
        [ExternalCall (DescribeLoadBalancers [''some elb''])]"
proof -
  have c: "client (handle (failingClient errLoadBalancerNotFound)) = Some (failingClient errLoadBalancerNotFound)"
    by (simp add: handle_def)
  have d: "DescribeLoadBalancersRequest (failingClient errLoadBalancerNotFound)
        [ELBName (ForProvider exampleAttachment)] = Inl errLoadBalancerNotFound"
    by (simp add: failingClient_def)
  have n: "ELBName (ForProvider exampleAttachment) = ''some elb''"
    by (simp add: exampleAttachment_def)
  let ?absent = "\<lparr>LoadBalancerName = Some ''some elb'', Instances = []\<rparr>"
  have a: "hasAwsCode ''LoadBalancerNotFound'' (Some errLoadBalancerNotFound)
      \<and> client (handle (describingClient [?absent])) = Some (describingClient [?absent])
      \<and> DescribeLoadBalancersRequest (describingClient [?absent])
           [ELBName (ForProvider exampleAttachment)] = Inr [?absent]
      \<and> Instances ?absent = []"
    by (simp add: hasAwsCode_def errLoadBalancerNotFound_def handle_def describingClient_def)
  note found = Observe_describe_error[OF c d, of "hasAwsCode ''LoadBalancerNotFound''" 7]
  from found a have same:
    "Observe (hasAwsCode ''LoadBalancerNotFound'') 7 (handle (describingClient [?absent]))
       (ELBAttachmentMg exampleAttachment) =
     Observe (hasAwsCode ''LoadBalancerNotFound'') 7 (handle (failingClient errLoadBalancerNotFound))
       (ELBAttachmentMg exampleAttachment)"
    by blast
  show ?thesis
    using c d n same found
      Observe_describe_error[OF c d, of "hasAwsCode ''InvalidVpcID.NotFound''" 7]
    by (simp add: hasAwsCode_def errLoadBalancerNotFound_def)
qed

text \<open>
  C10. When the describe call succeeds with a list of descriptions whose length is not
  one (the empty list too), Observe returns the error of multiple items and the zero
  observation, and leaves the resource as it was.
\<close>

theorem Observe_not_exactly_one:
  assumes "client e = Some cl"
    and "DescribeLoadBalancersRequest cl [ELBName (ForProvider cr)] = Inr descriptions"
    and "length descriptions \<noteq> 1"
  shows "Observe IsELBNotFound now e (ELBAttachmentMg cr) =
           Returned (ELBAttachmentMg cr) ExternalObservation_zero
             (Some (ErrNew ''retrieved multiple ELBs for the given name''))
             [ExternalCall (DescribeLoadBalancers [ELBName (ForProvider cr)])]"
  using assms by (simp add: Observe_def Let_def errMultipleItems_def)

theorem Observe_not_exactly_one_witness:
  "client (handle (describingClient [])) = Some (describingClient [])
   \<and> DescribeLoadBalancersRequest (describingClient []) [ELBName (ForProvider exampleAttachment)]
       = Inr []
   \<and> length ([] :: LoadBalancerDescription list) \<noteq> 1
   \<and> Observe (hasAwsCode ''LoadBalancerNotFound'') 7 (handle (describingClient []))
        (ELBAttachmentMg exampleAttachment) =
      Returned (ELBAttachmentMg exampleAttachment) ExternalObservation_zero
        (Some (ErrNew ''retrieved multiple ELBs for the given name''))
        [ExternalCall (DescribeLoadBalancers [''some elb''])]"
proof -
  have c: "client (handle (describingClient [])) = Some (describingClient [])"
    by (simp add: handle_def)
  have d: "DescribeLoadBalancersRequest (describingClient []) [ELBName (ForProvider exampleAttachment)]
       = Inr []"
    by (simp add: describingClient_def)
  have l: "length ([] :: LoadBalancerDescription list) \<noteq> 1" by simp
  have n: "ELBName (ForProvider exampleAttachment) = ''some elb''"
    by (simp add: exampleAttachment_def)
  show ?thesis
    using c d l n Observe_not_exactly_one[OF c d l, of "hasAwsCode ''LoadBalancerNotFound''" 7]
    by simp
qed

section \<open>Delete\<close>

lemma Delete_returns:
  "client e = Some cl \<Longrightarrow>
   Delete IsVPCNotFoundErr now e (ELBAttachmentMg cr) =
     Returned (ELBAttachmentMg (cr\<lparr>Conditions := SetConditions [Deleting now] (Conditions cr)\<rparr>)) ()
       (Wrap (Ignore IsVPCNotFoundErr (errorOf (DeregisterInstancesFromLoadBalancerRequest cl
                 [\<lparr>InstanceId = Some (InstanceID (ForProvider cr))\<rparr>]
                 (Some (ELBName (ForProvider cr)))))) errDelete)
       [ConditionSet TypeDeleting,
        ExternalCall (DeregisterInstancesFromLoadBalancer
           [\<lparr>InstanceId = Some (InstanceID (ForProvider cr))\<rparr>] (Some (ELBName (ForProvider cr))))]"
  by (simp add: Delete_def Let_def)

text \<open>
  C3. The deregister call answers that the load balancer does not exist, with the error
  code that the not-found predicate of load balancers recognises. Delete has set the
  condition Deleting before the call, but it passes the not-found predicate of VPCs to
  \<open>Ignore\<close>, so the error is not recognised and Delete returns it, wrapped.
\<close>

theorem Delete_absent_load_balancer_fails:
  "hasAwsCode ''LoadBalancerNotFound'' (Some errLoadBalancerNotFound)
   \<and> Delete (hasAwsCode ''InvalidVpcID.NotFound'') 7 (handle (failingClient errLoadBalancerNotFound))
        (ELBAttachmentMg exampleAttachment) =
      Returned (ELBAttachmentMg (exampleAttachment\<lparr>Conditions := [Deleting 7]\<rparr>)) ()
        (Some (ErrWrap errLoadBalancerNotFound errDelete))
        [ConditionSet TypeDeleting,
         ExternalCall (DeregisterInstancesFromLoadBalancer
           [\<lparr>InstanceId = Some ''i-0abc''\<rparr>] (Some ''some elb''))]"
  by (simp add: Delete_returns[where cl = "failingClient errLoadBalancerNotFound"] handle_def
        failingClient_def errorOf_def Ignore_def hasAwsCode_def errLoadBalancerNotFound_def
        exampleAttachment_def SetCondition_def)

section \<open>Update and inputs of the wrong type\<close>

text \<open>
  C9. Update returns the zero update result and a nil error for every handle and every
  input, of the expected type or not; the input is returned as it was and there is no
  event.
\<close>

theorem Update_is_noop: "Update e mgd = Returned mgd ExternalUpdate_zero None []"
  by (simp add: Update_def)

text \<open>
  C5, as the claim states it: Update on the nil resource, which is not an ELB
  attachment, does not return the error of an unexpected object.
\<close>

theorem Update_wrong_type_succeeds:
  "\<not> isELBAttachment nilManaged
   \<and> returnedError (Update nilHandle nilManaged) \<noteq> Some (ErrNew errUnexpectedObject)"
  by (simp add: Update_def nilManaged_def)

text \<open>
  C5, amended. On an input that is not an ELB attachment, Connect, Observe, Create and
  Delete return the error of an unexpected object, leave the input as it was and produce
  no event (no read, no condition, no call); Update, which checks nothing, returns the
  zero result and a nil error, with the input as it was and no event.
\<close>

theorem wrong_type_is_rejected:
  assumes "\<not> isELBAttachment mgd"
  shows "Connect c mgd = (None, Some (ErrNew errUnexpectedObject), [])
       \<and> Observe IsELBNotFound now e mgd =
           Returned mgd ExternalObservation_zero (Some (ErrNew errUnexpectedObject)) []
       \<and> Create now e mgd =
           Returned mgd ExternalCreation_zero (Some (ErrNew errUnexpectedObject)) []
       \<and> Delete IsVPCNotFoundErr now e mgd =
           Returned mgd () (Some (ErrNew errUnexpectedObject)) []
       \<and> Update e mgd = Returned mgd ExternalUpdate_zero None []"
  using assms
  by (cases mgd) (simp_all add: Connect_def Observe_def Create_def Delete_def Update_def)

theorem wrong_type_is_rejected_witness:
  "\<not> isELBAttachment nilManaged
   \<and> Connect failingConnector nilManaged = (None, Some (ErrNew errUnexpectedObject), [])
   \<and> Observe (hasAwsCode ''LoadBalancerNotFound'') 7 nilHandle nilManaged =
       Returned nilManaged ExternalObservation_zero (Some (ErrNew errUnexpectedObject)) []
   \<and> Create 7 nilHandle nilManaged =
       Returned nilManaged ExternalCreation_zero (Some (ErrNew errUnexpectedObject)) []
   \<and> Delete (hasAwsCode ''InvalidVpcID.NotFound'') 7 nilHandle nilManaged =
       Returned nilManaged () (Some (ErrNew errUnexpectedObject)) []
   \<and> Update nilHandle nilManaged = Returned nilManaged ExternalUpdate_zero None []"
proof -
  have h: "\<not> isELBAttachment nilManaged" by (simp add: nilManaged_def)
  show ?thesis
    using h wrong_type_is_rejected[OF h, of failingConnector "hasAwsCode ''LoadBalancerNotFound''"
        7 nilHandle "hasAwsCode ''InvalidVpcID.NotFound''"]
    by simp
qed

section \<open>Connect\<close>

lemma Connect_provider_error:
  "GetProvider (kube c) \<lparr>Namespace = [], Name = ProviderReference cr\<rparr> = Inl err \<Longrightarrow>
   Connect c (ELBAttachmentMg cr) =
     (None, Some (ErrWrap err errGetProvider),
      [KubeGetProvider \<lparr>Namespace = [], Name = ProviderReference cr\<rparr>])"
  by (simp add: Connect_def Let_def)

lemma Connect_ambient:
  "GetProvider (kube c) \<lparr>Namespace = [], Name = ProviderReference cr\<rparr> = Inr p \<Longrightarrow>
   BoolValue (UseServiceAccount p) \<Longrightarrow>
   Connect c (ELBAttachmentMg cr) =
     (Some \<lparr>e_kube = kube c, client = fst (newClientFn c [] (Region p) UsePodServiceAccount)\<rparr>,
      Wrap (snd (newClientFn c [] (Region p) UsePodServiceAccount)) errCreateELBClient,
      [KubeGetProvider \<lparr>Namespace = [], Name = ProviderReference cr\<rparr>,
       NewClient UsePodServiceAccount])"
  by (simp add: Connect_def Let_def split: prod.splits)

lemma Connect_no_secret_reference:
  "GetProvider (kube c) \<lparr>Namespace = [], Name = ProviderReference cr\<rparr> = Inr p \<Longrightarrow>
   \<not> BoolValue (UseServiceAccount p) \<Longrightarrow> CredentialsSecretRef p = None \<Longrightarrow>
   Connect c (ELBAttachmentMg cr) =
     (None, Some (ErrNew errGetProviderSecret),
      [KubeGetProvider \<lparr>Namespace = [], Name = ProviderReference cr\<rparr>])"
  by (simp add: Connect_def Let_def)

lemma Connect_secret_error:
  "GetProvider (kube c) \<lparr>Namespace = [], Name = ProviderReference cr\<rparr> = Inr p \<Longrightarrow>
   \<not> BoolValue (UseServiceAccount p) \<Longrightarrow> CredentialsSecretRef p = Some ref \<Longrightarrow>
   GetSecret (kube c) \<lparr>Namespace = SecretNamespace ref, Name = SecretName ref\<rparr> = Inl err \<Longrightarrow>
   Connect c (ELBAttachmentMg cr) =
     (None, Some (ErrWrap err errGetProviderSecret),
      [KubeGetProvider \<lparr>Namespace = [], Name = ProviderReference cr\<rparr>,
       KubeGetSecret \<lparr>Namespace = SecretNamespace ref, Name = SecretName ref\<rparr>])"
  by (simp add: Connect_def Let_def)

lemma Connect_secret:
  "GetProvider (kube c) \<lparr>Namespace = [], Name = ProviderReference cr\<rparr> = Inr p \<Longrightarrow>
   \<not> BoolValue (UseServiceAccount p) \<Longrightarrow> CredentialsSecretRef p = Some ref \<Longrightarrow>
   GetSecret (kube c) \<lparr>Namespace = SecretNamespace ref, Name = SecretName ref\<rparr> = Inr s \<Longrightarrow>
   Connect c (ELBAttachmentMg cr) =
     (Some \<lparr>e_kube = kube c,
            client = fst (newClientFn c (secretData s (Key ref)) (Region p) UseProviderSecret)\<rparr>,
      Wrap (snd (newClientFn c (secretData s (Key ref)) (Region p) UseProviderSecret))
        errCreateELBClient,
      [KubeGetProvider \<lparr>Namespace = [], Name = ProviderReference cr\<rparr>,
       KubeGetSecret \<lparr>Namespace = SecretNamespace ref, Name = SecretName ref\<rparr>,
       NewClient UseProviderSecret])"
  by (simp add: Connect_def Let_def split: prod.splits)

lemma GetProvider_mockKube:
  "GetProvider (mockKube p s) \<lparr>Namespace = [], Name = ProviderReference exampleAttachment\<rparr> = p"
  by (simp add: mockKube_def exampleAttachment_def)

lemma GetSecret_mockKube:
  "GetSecret (mockKube p s)
     \<lparr>Namespace = SecretNamespace exampleSecretRef, Name = SecretName exampleSecretRef\<rparr> = s"
  by (simp add: mockKube_def exampleSecretRef_def)

lemma exampleProvider_simps:
  "BoolValue (UseServiceAccount (exampleProvider sa ref)) = sa"
  "CredentialsSecretRef (exampleProvider sa ref) = ref"
  "Region (exampleProvider sa ref) = ''us-east-1''"
  by (simp_all add: exampleProvider_def BoolValue_def)

lemma ProviderReference_example: "ProviderReference exampleAttachment = ''aws-creds''"
  by (simp add: exampleAttachment_def)

text \<open>
  C6, as the claim states it: a provider in ambient-identity mode that is fetched, and a
  client function that fails. None of the three listed failures occurs, yet Connect
  returns an error, with a handle around the nil client.
\<close>

theorem Connect_fails_on_client_construction:
  "\<not> listedFailure \<lparr>kube = ambientKube, newClientFn = failingClientFn\<rparr> exampleAttachment
   \<and> Connect \<lparr>kube = ambientKube, newClientFn = failingClientFn\<rparr>
        (ELBAttachmentMg exampleAttachment) =
      (Some \<lparr>e_kube = ambientKube, client = None\<rparr>,
       Some (ErrWrap errBoom errCreateELBClient),
       [KubeGetProvider \<lparr>Namespace = [], Name = ''aws-creds''\<rparr>,
        NewClient UsePodServiceAccount])"
proof -
  have p: "GetProvider (kube \<lparr>kube = ambientKube, newClientFn = failingClientFn\<rparr>)
             \<lparr>Namespace = [], Name = ProviderReference exampleAttachment\<rparr> =
           Inr (exampleProvider True (Some exampleSecretRef))"
    by (simp add: ambientKube_def GetProvider_mockKube)
  have "\<not> listedFailure \<lparr>kube = ambientKube, newClientFn = failingClientFn\<rparr> exampleAttachment"
    using p by (simp add: listedFailure_def exampleProvider_simps)
  then show ?thesis
    using Connect_ambient[OF p]
    by (simp add: exampleProvider_simps failingClientFn_def ProviderReference_example)
qed

text \<open>
  C6, amended. Connect returns no handle exactly when one of the three listed failures
  occurs, and then it returns an error: the provider's fetch error wrapped with the
  provider message, or the new secret error when the provider is not in ambient mode and
  has no secret reference, or the secret's fetch error wrapped with the secret message.
  Otherwise it returns a handle around the client that the client function builds from
  the provider's region and the empty credentials (ambient mode) or the secret's bytes
  under the referenced key, and its error is the error of the client function, wrapped
  with the client message: nil exactly when the client function succeeds.
\<close>

theorem Connect_outcomes:
  "(listedFailure c cr \<longleftrightarrow> handleOf (Connect c (ELBAttachmentMg cr)) = None)
   \<and> (listedFailure c cr \<longrightarrow> connectError (Connect c (ELBAttachmentMg cr)) \<noteq> None)
   \<and> (\<forall>err. GetProvider (kube c) \<lparr>Namespace = [], Name = ProviderReference cr\<rparr> = Inl err \<longrightarrow>
         connectError (Connect c (ELBAttachmentMg cr)) = Some (ErrWrap err errGetProvider))
   \<and> (\<forall>p. GetProvider (kube c) \<lparr>Namespace = [], Name = ProviderReference cr\<rparr> = Inr p \<and>
         \<not> BoolValue (UseServiceAccount p) \<and> CredentialsSecretRef p = None \<longrightarrow>
         connectError (Connect c (ELBAttachmentMg cr)) = Some (ErrNew errGetProviderSecret))
   \<and> (\<forall>p ref err. GetProvider (kube c) \<lparr>Namespace = [], Name = ProviderReference cr\<rparr> = Inr p \<and>
         \<not> BoolValue (UseServiceAccount p) \<and> CredentialsSecretRef p = Some ref \<and>
         GetSecret (kube c) \<lparr>Namespace = SecretNamespace ref, Name = SecretName ref\<rparr> = Inl err \<longrightarrow>
         connectError (Connect c (ELBAttachmentMg cr)) = Some (ErrWrap err errGetProviderSecret))
   \<and> (\<forall>p. GetProvider (kube c) \<lparr>Namespace = [], Name = ProviderReference cr\<rparr> = Inr p \<and>
         BoolValue (UseServiceAccount p) \<longrightarrow>
         handleOf (Connect c (ELBAttachmentMg cr)) =
           Some \<lparr>e_kube = kube c,
                 client = fst (newClientFn c [] (Region p) UsePodServiceAccount)\<rparr> \<and>
         connectError (Connect c (ELBAttachmentMg cr)) =
           Wrap (snd (newClientFn c [] (Region p) UsePodServiceAccount)) errCreateELBClient)
   \<and> (\<forall>p ref s. GetProvider (kube c) \<lparr>Namespace = [], Name = ProviderReference cr\<rparr> = Inr p \<and>
         \<not> BoolValue (UseServiceAccount p) \<and> CredentialsSecretRef p = Some ref \<and>
         GetSecret (kube c) \<lparr>Namespace = SecretNamespace ref, Name = SecretName ref\<rparr> = Inr s \<longrightarrow>
         handleOf (Connect c (ELBAttachmentMg cr)) =
           Some \<lparr>e_kube = kube c,
                 client = fst (newClientFn c (secretData s (Key ref)) (Region p)
                                 UseProviderSecret)\<rparr> \<and>
         connectError (Connect c (ELBAttachmentMg cr)) =
           Wrap (snd (newClientFn c (secretData s (Key ref)) (Region p) UseProviderSecret))
             errCreateELBClient)"
proof -
  have "listedFailure c cr \<longleftrightarrow> handleOf (Connect c (ELBAttachmentMg cr)) = None"
    by (auto simp: listedFailure_def Connect_def Let_def
             split: sum.splits option.splits prod.splits)
  moreover have "listedFailure c cr \<longrightarrow> connectError (Connect c (ELBAttachmentMg cr)) \<noteq> None"
    by (auto simp: listedFailure_def Connect_def Let_def
             split: sum.splits option.splits prod.splits)
  ultimately show ?thesis
    by (simp add: Connect_provider_error Connect_ambient Connect_no_secret_reference
          Connect_secret_error Connect_secret)
qed

theorem Connect_outcomes_witness:
  "listedFailure \<lparr>kube = emptyKube, newClientFn = okClientFn\<rparr> exampleAttachment
   \<and> connectError (Connect \<lparr>kube = emptyKube, newClientFn = okClientFn\<rparr>
         (ELBAttachmentMg exampleAttachment)) = Some (ErrWrap errBoom errGetProvider)
   \<and> handleOf (Connect \<lparr>kube = emptyKube, newClientFn = okClientFn\<rparr>
         (ELBAttachmentMg exampleAttachment)) = None
   \<and> connectError (Connect \<lparr>kube = mockKube (Inr (exampleProvider False None)) (Inl errBoom),
                             newClientFn = okClientFn\<rparr>
         (ELBAttachmentMg exampleAttachment)) = Some (ErrNew errGetProviderSecret)
   \<and> connectError (Connect \<lparr>kube = mockKube (Inr (exampleProvider False (Some exampleSecretRef)))
                                      (Inl errBoom),
                             newClientFn = okClientFn\<rparr>
         (ELBAttachmentMg exampleAttachment)) = Some (ErrWrap errBoom errGetProviderSecret)
   \<and> handleOf (Connect \<lparr>kube = ambientKube, newClientFn = okClientFn\<rparr>
         (ELBAttachmentMg exampleAttachment)) =
       Some \<lparr>e_kube = ambientKube, client = fst (okClientFn [] ''us-east-1'' UsePodServiceAccount)\<rparr>
   \<and> connectError (Connect \<lparr>kube = ambientKube, newClientFn = okClientFn\<rparr>
         (ELBAttachmentMg exampleAttachment)) = None
   \<and> handleOf (Connect \<lparr>kube = secretKube, newClientFn = okClientFn\<rparr>
         (ELBAttachmentMg exampleAttachment)) =
       Some \<lparr>e_kube = secretKube,
             client = fst (okClientFn ''confidential!'' ''us-east-1'' UseProviderSecret)\<rparr>
   \<and> connectError (Connect \<lparr>kube = secretKube, newClientFn = okClientFn\<rparr>
         (ELBAttachmentMg exampleAttachment)) = None"
proof -
  let ?pn = "\<lparr>Namespace = [], Name = ProviderReference exampleAttachment\<rparr>"
  let ?sn = "\<lparr>Namespace = SecretNamespace exampleSecretRef, Name = SecretName exampleSecretRef\<rparr>"
  have p1: "GetProvider (kube \<lparr>kube = emptyKube, newClientFn = okClientFn\<rparr>) ?pn = Inl errBoom"
    by (simp add: emptyKube_def)
  have f1: "listedFailure \<lparr>kube = emptyKube, newClientFn = okClientFn\<rparr> exampleAttachment"
    using p1 by (simp add: listedFailure_def)
  note t1 = Connect_outcomes[of "\<lparr>kube = emptyKube, newClientFn = okClientFn\<rparr>" exampleAttachment]
  have r1: "connectError (Connect \<lparr>kube = emptyKube, newClientFn = okClientFn\<rparr>
         (ELBAttachmentMg exampleAttachment)) = Some (ErrWrap errBoom errGetProvider)"
    using t1 p1 by blast
  have r1': "handleOf (Connect \<lparr>kube = emptyKube, newClientFn = okClientFn\<rparr>
         (ELBAttachmentMg exampleAttachment)) = None"
    using t1 f1 by blast
  let ?c2 = "\<lparr>kube = mockKube (Inr (exampleProvider False None)) (Inl errBoom),
             newClientFn = okClientFn\<rparr>"
  have p2: "GetProvider (kube ?c2) ?pn = Inr (exampleProvider False None)
      \<and> \<not> BoolValue (UseServiceAccount (exampleProvider False None))
      \<and> CredentialsSecretRef (exampleProvider False None) = None"
    by (simp add: GetProvider_mockKube exampleProvider_simps)
  have r2: "connectError (Connect ?c2 (ELBAttachmentMg exampleAttachment)) =
      Some (ErrNew errGetProviderSecret)"
    using Connect_outcomes[of ?c2 exampleAttachment] p2 by blast
  let ?c3 = "\<lparr>kube = mockKube (Inr (exampleProvider False (Some exampleSecretRef))) (Inl errBoom),
             newClientFn = okClientFn\<rparr>"
  have p3: "GetProvider (kube ?c3) ?pn = Inr (exampleProvider False (Some exampleSecretRef))
      \<and> \<not> BoolValue (UseServiceAccount (exampleProvider False (Some exampleSecretRef)))
      \<and> CredentialsSecretRef (exampleProvider False (Some exampleSecretRef)) = Some exampleSecretRef
      \<and> GetSecret (kube ?c3) ?sn = Inl errBoom"
    by (simp add: GetProvider_mockKube GetSecret_mockKube exampleProvider_simps)
  have r3: "connectError (Connect ?c3 (ELBAttachmentMg exampleAttachment)) =
      Some (ErrWrap errBoom errGetProviderSecret)"
    using Connect_outcomes[of ?c3 exampleAttachment] p3 by blast
  let ?c4 = "\<lparr>kube = ambientKube, newClientFn = okClientFn\<rparr>"
  have p4: "GetProvider (kube ?c4) ?pn = Inr (exampleProvider True (Some exampleSecretRef))
      \<and> BoolValue (UseServiceAccount (exampleProvider True (Some exampleSecretRef)))"
    by (simp add: ambientKube_def GetProvider_mockKube exampleProvider_simps)
  have r4: "handleOf (Connect ?c4 (ELBAttachmentMg exampleAttachment)) =
           Some \<lparr>e_kube = kube ?c4,
                 client = fst (newClientFn ?c4 [] (Region (exampleProvider True (Some exampleSecretRef))) UsePodServiceAccount)\<rparr> \<and>
         connectError (Connect ?c4 (ELBAttachmentMg exampleAttachment)) =
           Wrap (snd (newClientFn ?c4 [] (Region (exampleProvider True (Some exampleSecretRef))) UsePodServiceAccount)) errCreateELBClient"
    using Connect_outcomes[of ?c4 exampleAttachment] p4 by blast
  let ?c5 = "\<lparr>kube = secretKube, newClientFn = okClientFn\<rparr>"
  let ?p5 = "exampleProvider False (Some exampleSecretRef)"
  have p5: "GetProvider (kube ?c5) ?pn = Inr ?p5
      \<and> \<not> BoolValue (UseServiceAccount ?p5)
      \<and> CredentialsSecretRef ?p5 = Some exampleSecretRef
      \<and> GetSecret (kube ?c5) ?sn = Inr exampleSecret"
    by (simp add: secretKube_def GetProvider_mockKube GetSecret_mockKube exampleProvider_simps)
  have r5: "handleOf (Connect ?c5 (ELBAttachmentMg exampleAttachment)) =
           Some \<lparr>e_kube = kube ?c5,
                 client = fst (newClientFn ?c5 (secretData exampleSecret (Key exampleSecretRef)) (Region ?p5)
                                 UseProviderSecret)\<rparr> \<and>
         connectError (Connect ?c5 (ELBAttachmentMg exampleAttachment)) =
           Wrap (snd (newClientFn ?c5 (secretData exampleSecret (Key exampleSecretRef)) (Region ?p5) UseProviderSecret))
             errCreateELBClient"
    using Connect_outcomes[of ?c5 exampleAttachment] p5 by blast
  have sd: "secretData exampleSecret (Key exampleSecretRef) = ''confidential!''"
    by (simp add: secretData_def exampleSecret_def exampleSecretRef_def)
  show ?thesis
    using f1 r1 r1' r2 r3 r4 r5
    by (simp add: sd exampleProvider_simps okClientFn_def)
qed

section \<open>Observe of the group-policy attachment\<close>

lemma findPolicy_present:
  assumes "\<exists>p \<in> set ps. PolicyArn p = Some arn"
  shows "\<exists>p. findPolicy arn ps = Some p \<and> StringValue (PolicyArn p) = arn"
proof -
  from assms have "\<exists>p \<in> set ps. StringValue (PolicyArn p) = arn"
    by (force simp: StringValue_def)
  then have "findPolicy arn ps \<noteq> None"
    by (auto simp: findPolicy_def find_None_iff)
  then obtain p where p: "findPolicy arn ps = Some p" by auto
  then have "StringValue (PolicyArn p) = arn"
    by (auto simp: findPolicy_def find_Some_iff)
  with p show ?thesis by simp
qed

text \<open>
  C7. For a group-policy attachment whose desired state names the group
  \<^verbatim>\<open>some group\<close> and the policy ARN \<^verbatim>\<open>some arn\<close>, when the list call returns attached
  policies that contain this ARN, Observe returns \<open>exists = true, upToDate = true\<close> and
  a nil error, sets the condition Available and records \<^verbatim>\<open>some arn\<close> as the attached
  policy of the observed state.
\<close>

theorem Observe_attached_policy:
  assumes "GroupName (GPA_ForProvider cr) = Some ''some group''"
    and "PolicyARN (GPA_ForProvider cr) = Some ''some arn''"
    and "ListAttachedGroupPoliciesRequest cl (Some ''some group'') = Inr policies"
    and "\<exists>p \<in> set policies. PolicyArn p = Some ''some arn''"
  shows "Observe_GroupPolicyAttachment IsNotFound errUnexpected errGet now (Some cl)
           (IAMGroupPolicyAttachmentMg cr) =
         Returned
           (IAMGroupPolicyAttachmentMg
              (cr\<lparr>GPA_Conditions := SetConditions [Available now] (GPA_Conditions cr),
                  GPA_AtProvider := \<lparr>AttachedPolicyARN = ''some arn''\<rparr>\<rparr>))
           \<lparr>ResourceExists = True, ResourceUpToDate = True, ResourceLateInitialized = False\<rparr>
           None
           [ExternalCall (ListAttachedGroupPolicies (Some ''some group'')),
            ConditionSet TypeAvailable]
       \<and> hasCondition TypeAvailable (SetConditions [Available now] (GPA_Conditions cr))"
proof -
  from findPolicy_present[OF assms(4)] obtain p where
    p: "findPolicy ''some arn'' policies = Some p" "StringValue (PolicyArn p) = ''some arn''"
    by blast
  have has: "hasCondition TypeAvailable (SetConditions [Available now] (GPA_Conditions cr))"
    using hasCondition_SetCondition[of "Available now" "GPA_Conditions cr"]
    by (simp add: Available_def)
  have arn: "StringValue (PolicyARN (GPA_ForProvider cr)) = ''some arn''"
    using assms(2) by (simp add: StringValue_def)
  show ?thesis
    using assms(1,3) p has
    by (simp add: Observe_GroupPolicyAttachment_def Let_def arn)
qed

theorem Observe_attached_policy_witness:
  "GroupName (GPA_ForProvider groupPolicy) = Some ''some group''
   \<and> PolicyARN (GPA_ForProvider groupPolicy) = Some ''some arn''
   \<and> ListAttachedGroupPoliciesRequest
        (listingClient [\<lparr>PolicyArn = Some ''some arn'', PolicyName = None\<rparr>])
        (Some ''some group'') = Inr [\<lparr>PolicyArn = Some ''some arn'', PolicyName = None\<rparr>]
   \<and> Observe_GroupPolicyAttachment (hasAwsCode ''NoSuchEntity'') ''unexpected'' ''get'' 7
        (Some (listingClient [\<lparr>PolicyArn = Some ''some arn'', PolicyName = None\<rparr>]))
        (IAMGroupPolicyAttachmentMg groupPolicy :: unit managed) =
      Returned
        (IAMGroupPolicyAttachmentMg
           (groupPolicy\<lparr>GPA_Conditions := [Available 7],
                        GPA_AtProvider := \<lparr>AttachedPolicyARN = ''some arn''\<rparr>\<rparr>))
        \<lparr>ResourceExists = True, ResourceUpToDate = True, ResourceLateInitialized = False\<rparr>
        None
        [ExternalCall (ListAttachedGroupPolicies (Some ''some group'')),
         ConditionSet TypeAvailable]"
proof -
  let ?ps = "[\<lparr>PolicyArn = Some ''some arn'', PolicyName = None\<rparr>]"
  have g: "GroupName (GPA_ForProvider groupPolicy) = Some ''some group''"
    by (simp add: groupPolicy_def)
  have a: "PolicyARN (GPA_ForProvider groupPolicy) = Some ''some arn''"
    by (simp add: groupPolicy_def)
  have l: "ListAttachedGroupPoliciesRequest (listingClient ?ps) (Some ''some group'') = Inr ?ps"
    by (simp add: listingClient_def)
  have m: "\<exists>p \<in> set ?ps. PolicyArn p = Some ''some arn''" by simp
  have c: "SetConditions [Available 7] (GPA_Conditions groupPolicy) = [Available 7]"
    by (simp add: groupPolicy_def SetCondition_def)
  note r = Observe_attached_policy[OF g a l m, of "hasAwsCode ''NoSuchEntity''" "''unexpected''"
      "''get''" 7, unfolded c]
  from g a l r show ?thesis by blast
qed

end
